theory Spec2Isabelle
  imports Main "HOL-Library.AList"
begin

section \<open>JavaScript values\<close>

text \<open>
  The values that flow through \<^verbatim>\<open>src/vimeo.js\<close>. An object is its list of own
  enumerable properties in insertion order; a function value carries an identity (the
  callback it stands for) and its own properties. Values have value semantics: two
  references to one object are not modelled. Numbers are integers (byte sizes); arrays
  are not represented.
\<close>

datatype jsval =
    JUndefined
  | JNull
  | JBool bool
  | JNum int
  | JStr string
  | JFunc nat "(string \<times> jsval) list"
  | JObj "(string \<times> jsval) list"

text \<open>A thrown (or returned) error object: its \<^verbatim>\<open>name\<close> and its \<^verbatim>\<open>message\<close>.\<close>

datatype js_error = JsError string string

definition TypeError :: "string \<Rightarrow> js_error" where
  "TypeError msg = JsError ''TypeError'' msg"

text \<open>\<^verbatim>\<open>String(error)\<close>, as \<^verbatim>\<open>Error.prototype.toString\<close> computes it.\<close>

fun error_toString :: "js_error \<Rightarrow> string" where
  "error_toString (JsError name msg) =
     (if name = [] then msg else if msg = [] then name else name @ '': '' @ msg)"

datatype js_type = TUndefined | TObject | TBoolean | TNumber | TString | TFunction

fun typeof :: "jsval \<Rightarrow> js_type" where
  "typeof JUndefined = TUndefined"
| "typeof JNull = TObject"
| "typeof (JBool b) = TBoolean"
| "typeof (JNum n) = TNumber"
| "typeof (JStr s) = TString"
| "typeof (JFunc f ps) = TFunction"
| "typeof (JObj ps) = TObject"

text \<open>The test an \<^verbatim>\<open>if (v)\<close>, a \<^verbatim>\<open>!v\<close> or a \<^verbatim>\<open>v || d\<close> makes.\<close>

fun truthy :: "jsval \<Rightarrow> bool" where
  "truthy JUndefined = False"
| "truthy JNull = False"
| "truthy (JBool b) = b"
| "truthy (JNum n) = (n \<noteq> 0)"
| "truthy (JStr s) = (s \<noteq> [])"
| "truthy (JFunc f ps) = True"
| "truthy (JObj ps) = True"

definition lookup :: "(string \<times> jsval) list \<Rightarrow> string \<Rightarrow> jsval" where
  "lookup ps k = (case map_of ps k of None \<Rightarrow> JUndefined | Some v \<Rightarrow> v)"

text \<open>
  \<^verbatim>\<open>v.k\<close> and \<^verbatim>\<open>v[k]\<close>. Reading a property of \<^verbatim>\<open>undefined\<close> or \<^verbatim>\<open>null\<close> throws;
  a primitive has none of the properties this program reads (\<^verbatim>\<open>size\<close>, \<^verbatim>\<open>name\<close>,
  \<^verbatim>\<open>upload\<close>, \<^verbatim>\<open>upload_link\<close>, \<^verbatim>\<open>uri\<close>, \<^verbatim>\<open>url\<close>, \<^verbatim>\<open>method\<close>, \<^verbatim>\<open>headers\<close>,
  \<^verbatim>\<open>data\<close> and the header names). The built-in \<^verbatim>\<open>name\<close> and \<^verbatim>\<open>length\<close> of a
  function are not modelled. The messages of the TypeErrors follow V8's wording, without
  its quotation marks; nothing below depends on them.
\<close>

fun get_prop :: "jsval \<Rightarrow> string \<Rightarrow> js_error + jsval" where
  "get_prop JUndefined k = Inl (TypeError (''Cannot read properties of undefined (reading '' @ k @ '')''))"
| "get_prop JNull k = Inl (TypeError (''Cannot read properties of null (reading '' @ k @ '')''))"
| "get_prop (JObj ps) k = Inr (lookup ps k)"
| "get_prop (JFunc f ps) k = Inr (lookup ps k)"
| "get_prop (JBool b) k = Inr JUndefined"
| "get_prop (JNum n) k = Inr JUndefined"
| "get_prop (JStr s) k = Inr JUndefined"

text \<open>
  \<^verbatim>\<open>v.k = x\<close> in strict mode (the file starts with \<^verbatim>\<open>"use strict"\<close> and is an ES
  module): the assignment throws a TypeError on \<^verbatim>\<open>undefined\<close>, on \<^verbatim>\<open>null\<close> and on
  every primitive. On an object an existing key keeps its place, a new key is appended.
\<close>

fun set_prop :: "jsval \<Rightarrow> string \<Rightarrow> jsval \<Rightarrow> js_error + jsval" where
  "set_prop (JObj ps) k x = Inr (JObj (AList.update k x ps))"
| "set_prop (JFunc f ps) k x = Inr (JFunc f (AList.update k x ps))"
| "set_prop JUndefined k x = Inl (TypeError (''Cannot set properties of undefined (setting '' @ k @ '')''))"
| "set_prop JNull k x = Inl (TypeError (''Cannot set properties of null (setting '' @ k @ '')''))"
| "set_prop (JBool b) k x = Inl (TypeError (''Cannot create property '' @ k @ '' on boolean''))"
| "set_prop (JNum n) k x = Inl (TypeError (''Cannot create property '' @ k @ '' on number''))"
| "set_prop (JStr s) k x = Inl (TypeError (''Cannot create property '' @ k @ '' on string''))"

text \<open>
  The properties an object spread \<^verbatim>\<open>{...v}\<close> copies. \<^verbatim>\<open>undefined\<close>, \<^verbatim>\<open>null\<close>,
  booleans and numbers contribute nothing. The index properties of a string are left
  out: no string reaches the one spread of this program (\<^verbatim>\<open>request\<close> raises first).
\<close>

fun spread :: "jsval \<Rightarrow> (string \<times> jsval) list" where
  "spread (JObj ps) = ps"
| "spread (JFunc f ps) = ps"
| "spread v = []"

section \<open>The world outside the class\<close>

text \<open>
  What the program does to the outside, in order: a callback it invokes, an HTTP call it
  hands to Axios, a read stream it opens.
\<close>

datatype event =
    Callback nat "jsval list"
  | AxiosPost string jsval "(string \<times> string) list"
  | AxiosRequest jsval
  | CreateReadStream string

text \<open>
  The libraries and the caller's callbacks, as parameters:
  \<^item> \<open>statSync_size p\<close> is \<^verbatim>\<open>fs.statSync(p).size\<close>, \<open>None\<close> when \<^verbatim>\<open>statSync\<close> throws;
  \<^item> \<open>basename\<close> is \<^verbatim>\<open>path.basename\<close>;
  \<^item> \<open>axios_post url data headers\<close> is \<^verbatim>\<open>Axios.post(url, data, {headers})\<close>: the
    thrown error, or \<^verbatim>\<open>response.data\<close>;
  \<^item> \<open>axios options\<close> is \<^verbatim>\<open>Axios(options)\<close>, likewise;
  \<^item> \<open>callback_throws f args\<close> is the error that the caller's callback \<open>f\<close> throws when
    it is called with \<open>args\<close>, if it throws.
\<close>

record env =
  statSync_size :: "string \<Rightarrow> nat option"
  basename :: "string \<Rightarrow> string"
  axios_post :: "string \<Rightarrow> jsval \<Rightarrow> (string \<times> string) list \<Rightarrow> js_error + jsval"
  axios :: "jsval \<Rightarrow> js_error + jsval"
  callback_throws :: "nat \<Rightarrow> jsval list \<Rightarrow> js_error option"

text \<open>\<^verbatim>\<open>f(args)\<close>: calling what is not a function throws before anything happens.\<close>

fun call_function :: "env \<Rightarrow> jsval \<Rightarrow> jsval list \<Rightarrow> (js_error + unit) \<times> event list" where
  "call_function env (JFunc f ps) args =
     (case callback_throws env f args of
        None \<Rightarrow> (Inr (), [Callback f args])
      | Some e \<Rightarrow> (Inl e, [Callback f args]))"
| "call_function env v args = (Inl (TypeError ''callback is not a function''), [])"

section \<open>The client\<close>

text \<open>\<^verbatim>\<open>src/constants.js\<close>\<close>

definition VIMEO_HOSTNAME :: string where
  "VIMEO_HOSTNAME = ''api.vimeo.com''"

definition AUTH_ENDPOINTS_authorization :: string where
  "AUTH_ENDPOINTS_authorization = ''/oauth/authorize''"

text \<open>
  The fields of a \<^verbatim>\<open>Vimeo\<close> instance. The credentials are strings (as the JSDoc types
  them) or \<^verbatim>\<open>undefined\<close> (\<open>None\<close>).
\<close>

record request_defaults =
  default_method :: string
  default_headers :: "(string \<times> string) list"

record vimeo =
  clientId :: "string option"
  clientSecret :: "string option"
  accessToken :: "string option"
  requestOptions :: request_defaults

text \<open>Truthiness of a string that may be \<^verbatim>\<open>undefined\<close>.\<close>

fun present :: "string option \<Rightarrow> bool" where
  "present None = False"
| "present (Some s) = (s \<noteq> [])"

text \<open>
  \<^verbatim>\<open>constructor(clientId, clientSecret, accessToken)\<close>, lines 19-34. A falsy token leaves
  the field \<^verbatim>\<open>_accessToken\<close> unset.
\<close>

definition Vimeo :: "string option \<Rightarrow> string option \<Rightarrow> string option \<Rightarrow> vimeo" where
  "Vimeo cid secret token =
     \<lparr> clientId = cid,
       clientSecret = secret,
       accessToken = (if present token then token else None),
       requestOptions =
         \<lparr> default_method = ''GET'',
           default_headers =
             [(''Accept'', ''application/vnd.vimeo.*+json;version=3.4''),
              (''User-Agent'', ''Vimeo.js/2.1.1'')] \<rparr> \<rparr>"

text \<open>\<^verbatim>\<open>setAccessToken\<close>, lines 41-43.\<close>

definition setAccessToken :: "vimeo \<Rightarrow> string option \<Rightarrow> vimeo" where
  "setAccessToken this token = this\<lparr>accessToken := token\<rparr>"

section \<open>The authorization endpoint\<close>

text \<open>
  The \<^verbatim>\<open>scope\<close> argument as the JSDoc types it: left out, a string, or an array of
  strings. The redirect URI and the state are strings or \<^verbatim>\<open>undefined\<close>.
\<close>

datatype scope_arg = ScopeOmitted | ScopeString string | ScopeArray "string list"

text \<open>\<^verbatim>\<open>Array.prototype.join\<close> on strings.\<close>

fun join :: "string \<Rightarrow> string list \<Rightarrow> string" where
  "join sep [] = []"
| "join sep [x] = x"
| "join sep (x # y # ys) = x @ sep @ join sep (y # ys)"

text \<open>
  Lines 98-106. An array is always truthy (also the empty one); a string is truthy
  unless it is empty; a falsy scope becomes \<^verbatim>\<open>"public"\<close>.
\<close>

fun query_scope :: "scope_arg \<Rightarrow> string" where
  "query_scope (ScopeArray xs) = join '' '' xs"
| "query_scope (ScopeString s) = (if s \<noteq> [] then s else ''public'')"
| "query_scope ScopeOmitted = ''public''"

text \<open>Lines 92-110: the \<^verbatim>\<open>query\<close> object, its keys in insertion order.\<close>

definition authorization_query ::
  "vimeo \<Rightarrow> string option \<Rightarrow> scope_arg \<Rightarrow> string option \<Rightarrow> (string \<times> string option) list" where
  "authorization_query this redirectUri scope state =
     [(''response_type'', Some ''code''),
      (''client_id'', clientId this),
      (''redirect_uri'', redirectUri),
      (''scope'', Some (query_scope scope))]
     @ (if present state then [(''state'', state)] else [])"

text \<open>
  \<^verbatim>\<open>querystring.stringify\<close> of Node.js on an object whose values are strings or
  \<^verbatim>\<open>undefined\<close>: the fields \<^verbatim>\<open>key=value\<close> joined by \<^verbatim>\<open>&\<close>, keys and values
  percent-encoded by \<^verbatim>\<open>querystring.escape\<close>, \<^verbatim>\<open>undefined\<close> written as the empty
  string. A string is its sequence of UTF-8 bytes.
\<close>

definition unreserved :: "char \<Rightarrow> bool" where
  "unreserved c =
     (c \<in> set ''ABCDEFGHIJKLMNOPQRSTUVWXYZabcdefghijklmnopqrstuvwxyz0123456789-_.!~*()''
      \<or> c = CHR 0x27)"

definition hex_digit :: "nat \<Rightarrow> char" where
  "hex_digit d = ''0123456789ABCDEF'' ! d"

fun qs_escape :: "string \<Rightarrow> string" where
  "qs_escape [] = []"
| "qs_escape (c # cs) =
     (if unreserved c then c # qs_escape cs
      else CHR ''%'' # hex_digit (of_char c div 16) # hex_digit (of_char c mod 16) # qs_escape cs)"

definition qs_field :: "string \<times> string option \<Rightarrow> string" where
  "qs_field kv =
     qs_escape (fst kv) @ ''='' @ (case snd kv of None \<Rightarrow> [] | Some s \<Rightarrow> qs_escape s)"

definition qs_stringify :: "(string \<times> string option) list \<Rightarrow> string" where
  "qs_stringify query = join ''&'' (map qs_field query)"

text \<open>\<^verbatim>\<open>buildAuthorizationEndpoint\<close>, lines 91-115.\<close>

definition buildAuthorizationEndpoint ::
  "vimeo \<Rightarrow> string option \<Rightarrow> scope_arg \<Rightarrow> string option \<Rightarrow> string" where
  "buildAuthorizationEndpoint this redirectUri scope state =
     ''https://'' @ VIMEO_HOSTNAME @ AUTH_ENDPOINTS_authorization @ ''?'' @
       qs_stringify (authorization_query this redirectUri scope state)"

section \<open>Building and issuing a request\<close>

text \<open>
  Lines 162-168: each default header is written into the request's headers unless the
  request already has a truthy value under that name.
\<close>

fun apply_default_headers :: "(string \<times> string) list \<Rightarrow> jsval \<Rightarrow> js_error + jsval" where
  "apply_default_headers [] headers = Inr headers"
| "apply_default_headers ((key, v) # rest) headers =
     (case get_prop headers key of
        Inl e \<Rightarrow> Inl e
      | Inr current \<Rightarrow>
          if \<not> truthy current then
            (case set_prop headers key (JStr v) of
               Inl e \<Rightarrow> Inl e
             | Inr headers' \<Rightarrow> apply_default_headers rest headers')
          else apply_default_headers rest headers)"

text \<open>Lines 170-175: the Authorization header, from the token or from the client pair.\<close>

definition apply_authorization :: "vimeo \<Rightarrow> jsval \<Rightarrow> js_error + jsval" where
  "apply_authorization this headers =
     (if present (accessToken this) then
        set_prop headers ''Authorization'' (JStr (''Bearer '' @ the (accessToken this)))
      else if present (clientId this) \<and> present (clientSecret this) then
        (let basicToken = the (clientId this) @ '':'' @ the (clientSecret this)
         in set_prop headers ''Authorization'' (JStr (''Basic '' @ basicToken)))
      else Inr headers)"

text \<open>Lines 177-184: a JSON content type for a mutating method that has none.\<close>

definition apply_content_type :: "jsval \<Rightarrow> jsval \<Rightarrow> js_error + jsval" where
  "apply_content_type method headers =
     (if method \<in> set [JStr ''POST'', JStr ''PATCH'', JStr ''PUT'', JStr ''DELETE''] then
        (case get_prop headers ''Content-Type'' of
           Inl e \<Rightarrow> Inl e
         | Inr ct \<Rightarrow>
             if \<not> truthy ct then set_prop headers ''Content-Type'' (JStr ''application/json'')
             else Inr headers)
      else Inr headers)"

text \<open>
  \<^verbatim>\<open>_buildRequestOptions\<close>, lines 153-187. The headers object is the caller's own when
  it is truthy; the result holds it as updated.
\<close>

definition buildRequestOptions :: "vimeo \<Rightarrow> jsval \<Rightarrow> js_error + jsval" where
  "buildRequestOptions this options =
     (case get_prop options ''method'' of Inl e \<Rightarrow> Inl e | Inr m \<Rightarrow>
     (case get_prop options ''headers'' of Inl e \<Rightarrow> Inl e | Inr h \<Rightarrow>
     (case get_prop options ''data'' of Inl e \<Rightarrow> Inl e | Inr d \<Rightarrow>
       (let method = (if truthy m then m else JStr ''GET'');
            headers = (if truthy h then h else JObj []);
            built =
              AList.update ''data'' d
                (AList.update ''headers'' headers
                  (AList.update ''method'' method (spread options)))
        in
        (case apply_default_headers (default_headers (requestOptions this)) headers of
           Inl e \<Rightarrow> Inl e | Inr headers1 \<Rightarrow>
        (case apply_authorization this headers1 of Inl e \<Rightarrow> Inl e | Inr headers2 \<Rightarrow>
        (case apply_content_type method headers2 of Inl e \<Rightarrow> Inl e | Inr headers3 \<Rightarrow>
           Inr (JObj (AList.update ''headers'' headers3 built)))))))))"

text \<open>
  What \<^verbatim>\<open>request\<close> hands back when its promise resolves: the Error object of line 219
  or the body of the response.
\<close>

datatype request_result = ReturnedError js_error | ResponseData jsval

text \<open>
  \<^verbatim>\<open>request\<close>, lines 210-230. \<open>Inl\<close> is a rejected promise (something was thrown). The
  assignment of line 213 is made on the string itself.
\<close>

definition request :: "env \<Rightarrow> vimeo \<Rightarrow> jsval \<Rightarrow> (js_error + request_result) \<times> event list" where
  "request env this options =
     (case (if typeof options = TString then set_prop options ''method'' (JStr ''GET'')
            else Inr options) of
        Inl e \<Rightarrow> (Inl e, [])
      | Inr options1 \<Rightarrow>
     (case get_prop options1 ''url'' of
        Inl e \<Rightarrow> (Inl e, [])
      | Inr url \<Rightarrow>
          if typeof url \<noteq> TString then
            (Inr (ReturnedError (JsError ''Error'' ''You must provide an API url'')), [])
          else
            (case buildRequestOptions this options1 of
               Inl e \<Rightarrow> (Inl e, [])
             | Inr built \<Rightarrow>
                 (case axios env built of
                    Inl e \<Rightarrow> (Inl e, [AxiosRequest built])
                  | Inr data \<Rightarrow> (Inr (ResponseData data), [AxiosRequest built])))))"

section \<open>The resumable transfer\<close>

text \<open>
  The object \<^verbatim>\<open>new tus.Upload(file, options)\<close> of the tus-js-client library, as far as
  this program touches it: the file it reads from, the options the constructor receives,
  the \<^verbatim>\<open>url\<close> field (\<^verbatim>\<open>null\<close> after construction) and whether \<^verbatim>\<open>start()\<close> was
  called on it.
\<close>

datatype tus_file = ReadStream string | FileObject jsval

text \<open>
  The function of lines 264-266, as the two variables it closes over:
  \<^verbatim>\<open>completeCallback\<close> and \<^verbatim>\<open>attempt\<close>.
\<close>

datatype success_closure = OnSuccess jsval jsval

record tus_upload =
  tus_file :: tus_file
  tus_endpoint :: string
  tus_uploadSize :: jsval
  tus_retryDelays :: "nat list"
  tus_onError :: jsval
  tus_onProgress :: jsval
  tus_onSuccess :: success_closure
  tus_url :: jsval
  tus_started :: bool

text \<open>\<^verbatim>\<open>upload.start()\<close>, the library's method that begins the transfer.\<close>

definition start :: "tus_upload \<Rightarrow> tus_upload" where
  "start u = u\<lparr>tus_started := True\<rparr>"

text \<open>
  The library calls \<^verbatim>\<open>options.onSuccess()\<close> when the transfer has succeeded; the
  closure then runs \<^verbatim>\<open>completeCallback(attempt.uri)\<close>.
\<close>

fun run_onSuccess :: "env \<Rightarrow> success_closure \<Rightarrow> (js_error + unit) \<times> event list" where
  "run_onSuccess env (OnSuccess completeCallback attempt) =
     (case get_prop attempt ''uri'' of
        Inl e \<Rightarrow> (Inl e, [])
      | Inr uri \<Rightarrow> call_function env completeCallback [uri])"

text \<open>
  \<^verbatim>\<open>_performTusUpload\<close>, lines 244-272. The call \<^verbatim>\<open>upload.start()\<close> of line 271 is
  commented out in the source.
\<close>

definition performTusUpload ::
  "jsval \<Rightarrow> jsval \<Rightarrow> jsval \<Rightarrow> jsval \<Rightarrow> jsval \<Rightarrow> jsval \<Rightarrow> (js_error + tus_upload) \<times> event list" where
  "performTusUpload file fileSize attempt completeCallback progressCallback errorCallback =
     (let (fileUpload, opened) =
            (case file of
               JStr p \<Rightarrow> (ReadStream p, [CreateReadStream p])
             | _ \<Rightarrow> (FileObject file, []));
          upload =
            \<lparr> tus_file = fileUpload,
              tus_endpoint = ''none'',
              tus_uploadSize = fileSize,
              tus_retryDelays = [0, 1000, 3000, 5000],
              tus_onError = errorCallback,
              tus_onProgress = progressCallback,
              tus_onSuccess = OnSuccess completeCallback attempt,
              tus_url = JNull,
              tus_started = False \<rparr>
      in
      (case get_prop attempt ''upload'' of
         Inl e \<Rightarrow> (Inl e, opened)
       | Inr attempt_upload \<Rightarrow>
           (case get_prop attempt_upload ''upload_link'' of
              Inl e \<Rightarrow> (Inl e, opened)
            | Inr upload_link \<Rightarrow> (Inr (upload\<lparr>tus_url := upload_link\<rparr>), opened))))"

section \<open>The upload orchestrator\<close>

text \<open>
  What a call of \<^verbatim>\<open>upload\<close> or \<^verbatim>\<open>replace\<close> leaves behind: the settled promise (\<open>Inl\<close>
  rejected, \<open>Inr None\<close> resolved with \<^verbatim>\<open>null\<close>, \<open>Inr (Some u)\<close> resolved with the transfer
  handle), the object the local variable \<^verbatim>\<open>params\<close> refers to (the caller's own object,
  mutated in place, unless the call left params out) and the events in order.
\<close>

record upload_outcome =
  returned :: "js_error + tus_upload option"
  params_after :: jsval
  events :: "event list"

text \<open>
  Lines 300-305 and 374-379: when the argument in the place of \<^verbatim>\<open>params\<close> is a function,
  the callbacks move one place to the left and \<^verbatim>\<open>params\<close> is a fresh empty object.
\<close>

definition shift_arguments :: "jsval \<Rightarrow> jsval \<Rightarrow> jsval \<Rightarrow> jsval \<Rightarrow> jsval \<times> jsval \<times> jsval \<times> jsval" where
  "shift_arguments params completeCallback progressCallback errorCallback =
     (if typeof params = TFunction then (JObj [], params, completeCallback, progressCallback)
      else (params, completeCallback, progressCallback, errorCallback))"

text \<open>
  Lines 307-316 and 381-391: the size of the file. A path is stat'ed (any exception of
  \<^verbatim>\<open>statSync\<close> is caught); anything else is asked for its \<^verbatim>\<open>size\<close> property.
\<close>

datatype size_resolution = StatFailed | SizeThrew js_error | Resolved jsval

definition resolve_fileSize :: "env \<Rightarrow> jsval \<Rightarrow> size_resolution" where
  "resolve_fileSize env file =
     (case file of
        JStr p \<Rightarrow>
          (case statSync_size env p of
             None \<Rightarrow> StatFailed
           | Some n \<Rightarrow> Resolved (JNum (int n)))
      | _ \<Rightarrow>
          (case get_prop file ''size'' of
             Inl e \<Rightarrow> SizeThrew e
           | Inr s \<Rightarrow> Resolved s))"

text \<open>Lines 389 and 392: the value \<^verbatim>\<open>replace\<close> stores as \<^verbatim>\<open>params.file_name\<close>.\<close>

definition resolve_file_name :: "env \<Rightarrow> jsval \<Rightarrow> js_error + jsval" where
  "resolve_file_name env file =
     (case file of
        JStr p \<Rightarrow> Inr (JStr (basename env p))
      | _ \<Rightarrow> get_prop file ''name'')"

text \<open>Lines 318-327 and 395-404: the upload approach and size are overwritten.\<close>

definition override_upload_approach :: "jsval \<Rightarrow> jsval \<Rightarrow> js_error + jsval" where
  "override_upload_approach params fileSize =
     (case get_prop params ''upload'' of
        Inl e \<Rightarrow> Inl e
      | Inr params_upload \<Rightarrow>
          if typeof params_upload = TUndefined then
            set_prop params ''upload'' (JObj [(''approach'', JStr ''tus''), (''size'', fileSize)])
          else
            (case set_prop params_upload ''approach'' (JStr ''tus'') of
               Inl e \<Rightarrow> Inl e
             | Inr upload1 \<Rightarrow>
                 (case set_prop upload1 ''size'' fileSize of
                    Inl e \<Rightarrow> Inl e
                  | Inr upload2 \<Rightarrow> set_prop params ''upload'' upload2)))"

text \<open>
  The error callback with a fixed or wrapped message, then \<^verbatim>\<open>return null\<close>
  (lines 311-312, 344-345, 385-386, 426-427). What the callback throws is not caught.
\<close>

definition report_error :: "env \<Rightarrow> jsval \<Rightarrow> string \<Rightarrow> (js_error + tus_upload option) \<times> event list" where
  "report_error env errorCallback msg =
     (case call_function env errorCallback [JStr msg] of
        (Inl e, evs) \<Rightarrow> (Inl e, evs)
      | (Inr u, evs) \<Rightarrow> (Inr None, evs))"

text \<open>
  The tail of the \<^verbatim>\<open>try\<close> block and its \<^verbatim>\<open>catch\<close> (lines 335-346 and 417-428):
  \<open>attempt\<close> is what the block has computed so far, or what it has thrown.
\<close>

definition transfer_or_report ::
  "env \<Rightarrow> jsval \<Rightarrow> jsval \<Rightarrow> js_error + jsval \<Rightarrow> jsval \<Rightarrow> jsval \<Rightarrow> jsval
     \<Rightarrow> (js_error + tus_upload option) \<times> event list" where
  "transfer_or_report env file fileSize attempt completeCallback progressCallback errorCallback =
     (case (case attempt of
              Inl e \<Rightarrow> (Inl e, [])
            | Inr a \<Rightarrow> performTusUpload file fileSize a completeCallback progressCallback errorCallback) of
        (Inr u, evs) \<Rightarrow> (Inr (Some u), evs)
      | (Inl error, evs) \<Rightarrow>
          (case report_error env errorCallback
                  (''Unable to initiate an upload. ['' @ error_toString error @ '']'') of
             (r, evs') \<Rightarrow> (r, evs @ evs')))"

text \<open>\<^verbatim>\<open>upload\<close>, lines 290-347.\<close>

definition upload ::
  "env \<Rightarrow> vimeo \<Rightarrow> jsval \<Rightarrow> jsval \<Rightarrow> jsval \<Rightarrow> jsval \<Rightarrow> jsval \<Rightarrow> upload_outcome" where
  "upload env this file params0 completeCallback0 progressCallback0 errorCallback0 =
     (case shift_arguments params0 completeCallback0 progressCallback0 errorCallback0 of
        (params, completeCallback, progressCallback, errorCallback) \<Rightarrow>
     (case resolve_fileSize env file of
        StatFailed \<Rightarrow>
          (case report_error env errorCallback ''Unable to locate file to upload.'' of
             (r, evs) \<Rightarrow> \<lparr> returned = r, params_after = params, events = evs \<rparr>)
      | SizeThrew e \<Rightarrow> \<lparr> returned = Inl e, params_after = params, events = [] \<rparr>
      | Resolved fileSize \<Rightarrow>
          (case override_upload_approach params fileSize of
             Inl e \<Rightarrow> \<lparr> returned = Inl e, params_after = params, events = [] \<rparr>
           | Inr params1 \<Rightarrow>
               (let url = ''/me/videos?field=uri,name,upload'';
                    headers = default_headers (requestOptions this);
                    attempt = axios_post env url params1 headers
                in
                (case transfer_or_report env file fileSize attempt
                        completeCallback progressCallback errorCallback of
                   (r, evs) \<Rightarrow>
                     \<lparr> returned = r, params_after = params1,
                       events = AxiosPost url params1 headers # evs \<rparr>)))))"

text \<open>\<^verbatim>\<open>replace\<close>, lines 363-429.\<close>

definition replace ::
  "env \<Rightarrow> vimeo \<Rightarrow> jsval \<Rightarrow> string \<Rightarrow> jsval \<Rightarrow> jsval \<Rightarrow> jsval \<Rightarrow> jsval \<Rightarrow> upload_outcome" where
  "replace env this file videoUri params0 completeCallback0 progressCallback0 errorCallback0 =
     (case shift_arguments params0 completeCallback0 progressCallback0 errorCallback0 of
        (params, completeCallback, progressCallback, errorCallback) \<Rightarrow>
     (case resolve_fileSize env file of
        StatFailed \<Rightarrow>
          (case report_error env errorCallback ''Unable to locate file to upload.'' of
             (r, evs) \<Rightarrow> \<lparr> returned = r, params_after = params, events = evs \<rparr>)
      | SizeThrew e \<Rightarrow> \<lparr> returned = Inl e, params_after = params, events = [] \<rparr>
      | Resolved fileSize \<Rightarrow>
          (case resolve_file_name env file of
             Inl e \<Rightarrow> \<lparr> returned = Inl e, params_after = params, events = [] \<rparr>
           | Inr file_name \<Rightarrow>
          (case set_prop params ''file_name'' file_name of
             Inl e \<Rightarrow> \<lparr> returned = Inl e, params_after = params, events = [] \<rparr>
           | Inr params1 \<Rightarrow>
          (case override_upload_approach params1 fileSize of
             Inl e \<Rightarrow> \<lparr> returned = Inl e, params_after = params1, events = [] \<rparr>
           | Inr params2 \<Rightarrow>
               (let url = videoUri @ ''/versions?fields=upload'';
                    headers = default_headers (requestOptions this);
                    attempt =
                      (case axios_post env url params2 headers of
                         Inl e \<Rightarrow> Inl e
                       | Inr data \<Rightarrow> set_prop data ''uri'' (JStr videoUri))
                in
                (case transfer_or_report env file fileSize attempt
                        completeCallback progressCallback errorCallback of
                   (r, evs) \<Rightarrow>
                     \<lparr> returned = r, params_after = params2,
                       events = AxiosPost url params2 headers # evs \<rparr>)))))))"

section \<open>Notions the properties are stated with\<close>

text \<open>
  Reading a query parameter back from a URL: the part after the first \<^verbatim>\<open>?\<close> is cut
  at every \<^verbatim>\<open>&\<close>, each field at its first \<^verbatim>\<open>=\<close>, and both halves are
  percent-decoded (\<^verbatim>\<open>+\<close> reads as a space).
\<close>

fun split_on :: "char \<Rightarrow> string \<Rightarrow> string list" where
  "split_on c [] = [[]]"
| "split_on c (x # xs) =
     (if x = c then [] # split_on c xs
      else (case split_on c xs of [] \<Rightarrow> [[x]] | y # ys \<Rightarrow> (x # y) # ys))"

definition hex_value :: "char \<Rightarrow> nat" where
  "hex_value c =
     (let n = of_char c in
      if 48 \<le> n \<and> n \<le> 57 then n - 48
      else if 65 \<le> n \<and> n \<le> 70 then n - 55
      else if 97 \<le> n \<and> n \<le> 102 then n - 87
      else 0)"

definition plus_to_space :: "char \<Rightarrow> char" where
  "plus_to_space c = (if c = CHR ''+'' then CHR '' '' else c)"

fun qs_unescape :: "string \<Rightarrow> string" where
  "qs_unescape [] = []"
| "qs_unescape [c] = [plus_to_space c]"
| "qs_unescape [c, a] = plus_to_space c # qs_unescape [a]"
| "qs_unescape (c # a # b # rest) =
     (if c = CHR ''%'' then char_of (16 * hex_value a + hex_value b) # qs_unescape rest
      else plus_to_space c # qs_unescape (a # b # rest))"

definition decode_field :: "string \<Rightarrow> string \<times> string" where
  "decode_field f =
     (qs_unescape (takeWhile (\<lambda>c. c \<noteq> CHR ''='') f),
      qs_unescape (drop 1 (dropWhile (\<lambda>c. c \<noteq> CHR ''='') f)))"

definition query_fields :: "string \<Rightarrow> (string \<times> string) list" where
  "query_fields url =
     map decode_field (split_on CHR ''&'' (drop 1 (dropWhile (\<lambda>c. c \<noteq> CHR ''?'') url)))"

definition query_param :: "string \<Rightarrow> string \<Rightarrow> string option" where
  "query_param url k = map_of (query_fields url) k"

definition field_value :: "string option \<Rightarrow> string" where
  "field_value v = (case v of None \<Rightarrow> [] | Some s \<Rightarrow> s)"

text \<open>The Authorization header of built request options, \<^verbatim>\<open>undefined\<close> when there is none.\<close>

definition authorization_header :: "jsval \<Rightarrow> jsval" where
  "authorization_header built =
     (case get_prop built ''headers'' of
        Inl e \<Rightarrow> JUndefined
      | Inr headers \<Rightarrow>
          (case get_prop headers ''Authorization'' of Inl e \<Rightarrow> JUndefined | Inr a \<Rightarrow> a))"

text \<open>
  A client some time after its construction: the only method that changes an instance
  is \<^verbatim>\<open>setAccessToken\<close>, called here with each of \<open>tokens\<close> in turn.
\<close>

definition client_after :: "vimeo \<Rightarrow> string option list \<Rightarrow> vimeo" where
  "client_after this tokens = foldl setAccessToken this tokens"

section \<open>A sample environment\<close>

text \<open>
  One concrete outside world, for running the model: a disk with the single file
  \<^verbatim>\<open>/videos/clip.mp4\<close> of 2048 bytes, POSIX \<^verbatim>\<open>path.basename\<close>, a server that answers
  every POST with an upload attempt, and callbacks that return normally.
\<close>

definition posix_basename :: "string \<Rightarrow> string" where
  "posix_basename p =
     rev (takeWhile (\<lambda>c. c \<noteq> CHR ''/'') (dropWhile (\<lambda>c. c = CHR ''/'') (rev p)))"

definition sample_attempt :: jsval where
  "sample_attempt =
     JObj [(''uri'', JStr ''/videos/42''),
           (''upload'', JObj [(''upload_link'', JStr ''https://files.tus.vimeo.com/files/abc'')])]"

definition sample_env :: env where
  "sample_env =
     \<lparr> statSync_size = (\<lambda>p. if p = ''/videos/clip.mp4'' then Some 2048 else None),
       basename = posix_basename,
       axios_post = (\<lambda>url data headers. Inr sample_attempt),
       axios = (\<lambda>options. Inr (JObj [(''ok'', JBool True)])),
       callback_throws = (\<lambda>f args. None) \<rparr>"

definition sample_client :: vimeo where
  "sample_client = Vimeo (Some ''client-id'') (Some ''client-secret'') None"

definition sample_params :: "(string \<times> jsval) list" where
  "sample_params =
     [(''name'', JStr ''Clip''),
      (''upload'', JObj [(''approach'', JStr ''post''),
                         (''redirect_url'', JStr ''https://example.com/done'')])]"

section \<open>Auxiliary facts\<close>

subsection \<open>Objects, headers and the client\<close>

lemma lookup_update:
  "lookup (AList.update k v ps) k' = (if k' = k then v else lookup ps k')"
  by (simp add: lookup_def update_conv')

lemma client_after_fields:
  "clientId (client_after this tokens) = clientId this"
  "clientSecret (client_after this tokens) = clientSecret this"
  "requestOptions (client_after this tokens) = requestOptions this"
  unfolding client_after_def
  by (induction tokens arbitrary: this) (simp_all add: setAccessToken_def)

lemma apply_default_headers_object:
  "\<exists>hs'. apply_default_headers defaults (JObj hs) = Inr (JObj hs')
      \<and> (\<forall>k. k \<notin> fst ` set defaults \<longrightarrow> lookup hs' k = lookup hs k)"
proof (induction defaults arbitrary: hs)
  case Nil
  show ?case by simp
next
  case (Cons d defaults)
  obtain key v where d: "d = (key, v)" by (cases d)
  show ?case
  proof (cases "truthy (lookup hs key)")
    case True
    with Cons [of hs] d show ?thesis by auto
  next
    case False
    from Cons [of "AList.update key (JStr v) hs"] obtain hs' where
      "apply_default_headers defaults (JObj (AList.update key (JStr v) hs)) = Inr (JObj hs')"
      "\<forall>k. k \<notin> fst ` set defaults \<longrightarrow> lookup hs' k = lookup (AList.update key (JStr v) hs) k"
      by blast
    with False d show ?thesis by (auto simp: lookup_update)
  qed
qed

lemma apply_authorization_object:
  "apply_authorization this (JObj hs) =
     Inr (JObj (if present (accessToken this) then
                  AList.update ''Authorization'' (JStr (''Bearer '' @ the (accessToken this))) hs
                else if present (clientId this) \<and> present (clientSecret this) then
                  AList.update ''Authorization''
                    (JStr (''Basic '' @ the (clientId this) @ '':'' @ the (clientSecret this))) hs
                else hs))"
  by (simp add: apply_authorization_def Let_def)

lemma apply_content_type_object:
  "\<exists>hs'. apply_content_type method (JObj hs) = Inr (JObj hs')
          \<and> lookup hs' ''Authorization'' = lookup hs ''Authorization''"
  by (auto simp: apply_content_type_def lookup_update)

subsection \<open>The steps of the orchestrator\<close>

lemma override_upload_approach_object:
  assumes "(lookup ps ''upload'' = JUndefined \<and> old = []) \<or> lookup ps ''upload'' = JObj old"
  shows "override_upload_approach (JObj ps) fileSize =
           Inr (JObj (AList.update ''upload''
                  (JObj (AList.update ''size'' fileSize (AList.update ''approach'' (JStr ''tus'') old)))
                  ps))"
  using assms by (auto simp: override_upload_approach_def)

lemma resolve_fileSize_cases:
  assumes "(file = JStr p \<and> statSync_size env p = Some n \<and> fileSize = JNum (int n))
           \<or> (file = JObj fps \<and> fileSize = lookup fps ''size'')"
  shows "resolve_fileSize env file = Resolved fileSize"
  using assms by (auto simp: resolve_fileSize_def)

lemma resolve_file_name_cases:
  assumes "(file = JStr p \<and> statSync_size env p = Some n \<and> name = JStr (basename env p))
           \<or> (file = JObj fps \<and> name = lookup fps ''name'')"
  shows "resolve_file_name env file = Inr name \<and> (\<exists>fileSize. resolve_fileSize env file = Resolved fileSize)"
  using assms by (auto simp: resolve_file_name_def resolve_fileSize_def)

lemma params_after_upload:
  assumes "resolve_fileSize env file = Resolved fileSize"
    and "override_upload_approach (JObj ps) fileSize = Inr params1"
  shows "params_after (upload env this file (JObj ps) cc pc ec) = params1"
  using assms
  by (simp add: upload_def shift_arguments_def Let_def split: prod.splits)

lemma params_after_replace:
  assumes "resolve_fileSize env file = Resolved fileSize"
    and "resolve_file_name env file = Inr name"
    and "override_upload_approach (JObj (AList.update ''file_name'' name ps)) fileSize = Inr params2"
  shows "params_after (replace env this file videoUri (JObj ps) cc pc ec) = params2"
  using assms
  by (simp add: replace_def shift_arguments_def Let_def split: prod.splits)

lemma performTusUpload_link:
  assumes "get_prop attempt ''upload'' = Inr attempt_upload"
    and "get_prop attempt_upload ''upload_link'' = Inr link"
  shows "\<exists>h opened. performTusUpload file fileSize attempt cc pc ec = (Inr h, opened)
           \<and> tus_url h = link \<and> tus_uploadSize h = fileSize
           \<and> tus_retryDelays h = [0, 1000, 3000, 5000] \<and> \<not> tus_started h
           \<and> tus_onSuccess h = OnSuccess cc attempt \<and> tus_onError h = ec \<and> tus_onProgress h = pc"
  using assms by (simp add: performTusUpload_def Let_def split: prod.splits)

lemma report_error_events:
  "snd (report_error env ec msg) = [] \<or> (\<exists>f. snd (report_error env ec msg) = [Callback f [JStr msg]])"
  by (cases ec) (auto simp: report_error_def split: option.splits)

lemma upload_resolved:
  assumes "shift_arguments params0 cc0 pc0 ec0 = (params, cc, pc, ec)"
    and "resolve_fileSize env file = Resolved fileSize"
    and "override_upload_approach params fileSize = Inr params1"
  shows "upload env this file params0 cc0 pc0 ec0 =
           (let url = ''/me/videos?field=uri,name,upload'';
                headers = default_headers (requestOptions this);
                r = transfer_or_report env file fileSize (axios_post env url params1 headers) cc pc ec
            in \<lparr> returned = fst r, params_after = params1,
                 events = AxiosPost url params1 headers # snd r \<rparr>)"
  using assms by (simp add: upload_def Let_def split: prod.splits)

lemma upload_posted:
  assumes sh: "shift_arguments params0 cc0 pc0 ec0 = (params, cc, pc, ec)"
    and ev: "events (upload env this file params0 cc0 pc0 ec0) = AxiosPost url body hs # rest"
  shows "\<exists>fileSize. resolve_fileSize env file = Resolved fileSize
           \<and> override_upload_approach params fileSize = Inr body"
proof (cases "resolve_fileSize env file")
  case StatFailed
  with sh ev report_error_events [of env ec "''Unable to locate file to upload.''"]
  show ?thesis by (auto simp: upload_def split: prod.splits)
next
  case (SizeThrew e)
  with sh ev show ?thesis by (simp add: upload_def)
next
  case (Resolved fileSize)
  show ?thesis
  proof (cases "override_upload_approach params fileSize")
    case (Inl e)
    with sh ev Resolved show ?thesis by (simp add: upload_def)
  next
    case (Inr params1)
    from ev upload_resolved [OF sh Resolved Inr, of this]
    have "body = params1" by (simp add: Let_def)
    with Resolved Inr show ?thesis by simp
  qed
qed

lemma replace_resolved:
  assumes "shift_arguments params0 cc0 pc0 ec0 = (params, cc, pc, ec)"
    and "resolve_fileSize env file = Resolved fileSize"
    and "resolve_file_name env file = Inr name"
    and "set_prop params ''file_name'' name = Inr params1"
    and "override_upload_approach params1 fileSize = Inr params2"
  shows "replace env this file videoUri params0 cc0 pc0 ec0 =
           (let url = videoUri @ ''/versions?fields=upload'';
                headers = default_headers (requestOptions this);
                attempt =
                  (case axios_post env url params2 headers of
                     Inl e \<Rightarrow> Inl e
                   | Inr data \<Rightarrow> set_prop data ''uri'' (JStr videoUri));
                r = transfer_or_report env file fileSize attempt cc pc ec
            in \<lparr> returned = fst r, params_after = params2,
                 events = AxiosPost url params2 headers # snd r \<rparr>)"
  using assms by (simp add: replace_def Let_def split: prod.splits)

lemma replace_posted:
  assumes sh: "shift_arguments params0 cc0 pc0 ec0 = (params, cc, pc, ec)"
    and ev: "events (replace env this file videoUri params0 cc0 pc0 ec0) = AxiosPost url body hs # rest"
  shows "\<exists>fileSize name params1.
           resolve_fileSize env file = Resolved fileSize
           \<and> resolve_file_name env file = Inr name
           \<and> set_prop params ''file_name'' name = Inr params1
           \<and> override_upload_approach params1 fileSize = Inr body"
proof (cases "resolve_fileSize env file")
  case StatFailed
  with sh ev report_error_events [of env ec "''Unable to locate file to upload.''"]
  show ?thesis by (auto simp: replace_def split: prod.splits)
next
  case (SizeThrew e)
  with sh ev show ?thesis by (simp add: replace_def)
next
  case (Resolved fileSize)
  show ?thesis
  proof (cases "resolve_file_name env file")
    case (Inl e)
    with sh ev Resolved show ?thesis by (simp add: replace_def)
  next
    case name: (Inr name)
    show ?thesis
    proof (cases "set_prop params ''file_name'' name")
      case (Inl e)
      with sh ev Resolved name show ?thesis by (simp add: replace_def)
    next
      case p1: (Inr params1)
      show ?thesis
      proof (cases "override_upload_approach params1 fileSize")
        case (Inl e)
        with sh ev Resolved name p1 show ?thesis by (simp add: replace_def)
      next
        case (Inr params2)
        from ev replace_resolved [OF sh Resolved name p1 Inr, of this videoUri]
        have "body = params2" by (simp add: Let_def)
        with Resolved name p1 Inr show ?thesis by simp
      qed
    qed
  qed
qed

lemma transfer_or_report_link:
  assumes "get_prop attempt ''upload'' = Inr attempt_upload"
    and "get_prop attempt_upload ''upload_link'' = Inr link"
  shows "\<exists>h opened. transfer_or_report env file fileSize (Inr attempt) cc pc ec = (Inr (Some h), opened)
           \<and> tus_url h = link \<and> tus_uploadSize h = fileSize
           \<and> tus_retryDelays h = [0, 1000, 3000, 5000] \<and> \<not> tus_started h
           \<and> tus_onSuccess h = OnSuccess cc attempt \<and> tus_onError h = ec \<and> tus_onProgress h = pc"
  using performTusUpload_link [OF assms, of "file" fileSize cc pc ec]
  by (auto simp: transfer_or_report_def)

lemma set_uri_keeps_upload:
  assumes "get_prop data ''upload'' = Inr attempt_upload"
    and "get_prop attempt_upload k = Inr link"
  shows "\<exists>attempt. set_prop data ''uri'' v = Inr attempt
           \<and> get_prop attempt ''upload'' = Inr attempt_upload
           \<and> get_prop attempt ''uri'' = Inr v"
  using assms by (cases data) (auto simp: lookup_update)

lemma performTusUpload_events:
  "AxiosPost url body hs \<notin> set (snd (performTusUpload file fileSize attempt cc pc ec))"
  by (auto simp: performTusUpload_def Let_def split: jsval.splits sum.splits)

lemma transfer_or_report_events:
  "AxiosPost url body hs \<notin> set (snd (transfer_or_report env file fileSize attempt cc pc ec))"
proof -
  define tried where
    "tried = (case attempt of
                Inl e \<Rightarrow> (Inl e, [])
              | Inr a \<Rightarrow> performTusUpload file fileSize a cc pc ec)"
  obtain r evs where t: "tried = (r, evs)" by (cases tried)
  have clean: "AxiosPost url body hs \<notin> set evs"
  proof (cases attempt)
    case (Inl e)
    with t show ?thesis by (simp add: tried_def)
  next
    case (Inr a)
    with t performTusUpload_events [of url body hs "file" fileSize a cc pc ec]
    show ?thesis by (simp add: tried_def)
  qed
  show ?thesis
  proof (cases r)
    case (Inr u)
    with t clean show ?thesis
      by (simp add: transfer_or_report_def tried_def [symmetric])
  next
    case (Inl error)
    let ?msg = "''Unable to initiate an upload. ['' @ error_toString error @ '']''"
    obtain r' evs' where rep: "report_error env ec ?msg = (r', evs')"
      by (cases "report_error env ec ?msg")
    with report_error_events [of env ec ?msg]
    have "AxiosPost url body hs \<notin> set evs'" by auto
    with t clean Inl rep show ?thesis
      by (simp add: transfer_or_report_def tried_def [symmetric])
  qed
qed

subsection \<open>Percent-encoding and the query string\<close>

lemma unreserved_plain:
  "unreserved c \<Longrightarrow> c \<noteq> CHR ''%'' \<and> c \<noteq> CHR ''+'' \<and> c \<noteq> CHR ''&'' \<and> c \<noteq> CHR ''=''"
  by (auto simp: unreserved_def)

lemma nat_less_16_cases:
  "(d::nat) < 16 \<Longrightarrow> d \<in> {0, 1, 2, 3, 4, 5, 6, 7, 8, 9, 10, 11, 12, 13, 14, 15}"
  by simp arith

lemma hex_value_hex_digit: "d < 16 \<Longrightarrow> hex_value (hex_digit d) = d"
  by (drule nat_less_16_cases) (auto simp: hex_value_def hex_digit_def)

lemma hex_digit_not_separator:
  "d < 16 \<Longrightarrow> hex_digit d \<noteq> CHR ''&'' \<and> hex_digit d \<noteq> CHR ''=''"
  by (drule nat_less_16_cases) (auto simp: hex_digit_def)

lemma of_char_div_16: "(of_char (c::char) :: nat) div 16 < 16"
proof -
  have "(of_char c :: nat) < 256"
    by (metis of_char_mod_256 mod_less_divisor zero_less_numeral)
  then show ?thesis by arith
qed

lemma qs_escape_no_separator:
  "CHR ''&'' \<notin> set (qs_escape s) \<and> CHR ''='' \<notin> set (qs_escape s)"
proof (induction s)
  case Nil
  show ?case by simp
next
  case (Cons c cs)
  have hi: "hex_digit (of_char c div 16) \<noteq> CHR ''&'' \<and> hex_digit (of_char c div 16) \<noteq> CHR ''=''"
    by (rule hex_digit_not_separator) (rule of_char_div_16)
  have lo: "hex_digit (of_char c mod 16) \<noteq> CHR ''&'' \<and> hex_digit (of_char c mod 16) \<noteq> CHR ''=''"
    by (rule hex_digit_not_separator) simp
  from Cons hi lo unreserved_plain [of c] show ?case by auto
qed

lemma qs_unescape_plain:
  "c \<noteq> CHR ''%'' \<Longrightarrow> qs_unescape (c # xs) = plus_to_space c # qs_unescape xs"
proof (cases xs)
  case Nil
  then show ?thesis by simp
next
  case (Cons a ys)
  assume "c \<noteq> CHR ''%''"
  with Cons show ?thesis by (cases ys) simp_all
qed

lemma qs_unescape_escape: "qs_unescape (qs_escape s) = s"
proof (induction s)
  case Nil
  show ?case by simp
next
  case (Cons c cs)
  show ?case
  proof (cases "unreserved c")
    case True
    with unreserved_plain [of c] Cons show ?thesis
      by (simp add: qs_unescape_plain plus_to_space_def)
  next
    case False
    have "(of_char c :: nat) mod 16 < 16" by simp
    with False Cons of_char_div_16 [of c] show ?thesis
      by (simp add: hex_value_hex_digit)
  qed
qed

lemma split_on_no_separator: "c \<notin> set xs \<Longrightarrow> split_on c xs = [xs]"
  by (induction xs) auto

lemma split_on_first: "c \<notin> set xs \<Longrightarrow> split_on c (xs @ c # ys) = xs # split_on c ys"
  by (induction xs) auto

lemma qs_field_no_ampersand: "CHR ''&'' \<notin> set (qs_field kv)"
  using qs_escape_no_separator by (auto simp: qs_field_def split: option.splits)

lemma decode_field_qs_field: "decode_field (qs_field kv) = (fst kv, field_value (snd kv))"
proof -
  let ?k = "qs_escape (fst kv)"
  let ?v = "case snd kv of None \<Rightarrow> [] | Some s \<Rightarrow> qs_escape s"
  have all: "\<forall>c \<in> set ?k. c \<noteq> CHR ''=''"
    using qs_escape_no_separator [of "fst kv"] by auto
  have shape: "qs_field kv = ?k @ CHR ''='' # ?v"
    by (simp add: qs_field_def)
  have key: "takeWhile (\<lambda>c. c \<noteq> CHR ''='') (qs_field kv) = ?k"
    using all by (simp add: shape takeWhile_tail)
  have rest: "dropWhile (\<lambda>c. c \<noteq> CHR ''='') (qs_field kv) = CHR ''='' # ?v"
    using all by (simp add: shape dropWhile_append3)
  have "qs_unescape ?v = field_value (snd kv)"
    by (simp add: field_value_def qs_unescape_escape split: option.splits)
  then show ?thesis
    by (simp add: decode_field_def key rest qs_unescape_escape)
qed

lemma split_on_qs_stringify:
  "query \<noteq> [] \<Longrightarrow> split_on CHR ''&'' (qs_stringify query) = map qs_field query"
proof (induction query rule: list_nonempty_induct)
  case (single kv)
  then show ?case
    by (simp add: qs_stringify_def split_on_no_separator qs_field_no_ampersand)
next
  case (cons kv rest)
  then obtain y ys where rest: "rest = y # ys" by (cases rest) auto
  have "qs_stringify (kv # rest) = qs_field kv @ CHR ''&'' # qs_stringify rest"
    by (simp add: qs_stringify_def rest)
  with cons show ?case
    by (simp add: split_on_first qs_field_no_ampersand)
qed

lemma query_fields_buildAuthorizationEndpoint:
  "query_fields (buildAuthorizationEndpoint this redirectUri scope state) =
     map (\<lambda>kv. (fst kv, field_value (snd kv))) (authorization_query this redirectUri scope state)"
proof -
  have nonempty: "authorization_query this redirectUri scope state \<noteq> []"
    by (simp add: authorization_query_def)
  have "drop 1 (dropWhile (\<lambda>c. c \<noteq> CHR ''?'')
          (buildAuthorizationEndpoint this redirectUri scope state)) =
        qs_stringify (authorization_query this redirectUri scope state)"
    by (simp add: buildAuthorizationEndpoint_def VIMEO_HOSTNAME_def AUTH_ENDPOINTS_authorization_def)
  then show ?thesis
    by (simp add: query_fields_def split_on_qs_stringify [OF nonempty] decode_field_qs_field)
qed

section \<open>The claims\<close>

subsection \<open>Running the sample\<close>

lemma sample_upload_outcome:
  "upload sample_env this (JStr ''/videos/clip.mp4'') (JObj sample_params)
     (JFunc 11 []) (JFunc 12 []) (JFunc 13 []) =
     \<lparr> returned = Inr (Some
         \<lparr> tus_file = ReadStream ''/videos/clip.mp4'',
           tus_endpoint = ''none'',
           tus_uploadSize = JNum 2048,
           tus_retryDelays = [0, 1000, 3000, 5000],
           tus_onError = JFunc 13 [],
           tus_onProgress = JFunc 12 [],
           tus_onSuccess = OnSuccess (JFunc 11 []) sample_attempt,
           tus_url = JStr ''https://files.tus.vimeo.com/files/abc'',
           tus_started = False \<rparr>),
       params_after =
         JObj [(''name'', JStr ''Clip''),
               (''upload'', JObj [(''approach'', JStr ''tus''),
                                  (''redirect_url'', JStr ''https://example.com/done''),
                                  (''size'', JNum 2048)])],
       events =
         [AxiosPost ''/me/videos?field=uri,name,upload''
            (JObj [(''name'', JStr ''Clip''),
                   (''upload'', JObj [(''approach'', JStr ''tus''),
                                      (''redirect_url'', JStr ''https://example.com/done''),
                                      (''size'', JNum 2048)])])
            (default_headers (requestOptions this)),
          CreateReadStream ''/videos/clip.mp4''] \<rparr>"
  by (simp add: upload_def shift_arguments_def resolve_fileSize_def override_upload_approach_def
        transfer_or_report_def performTusUpload_def sample_env_def sample_params_def
        sample_attempt_def lookup_def Let_def)

subsection \<open>C1: a path that cannot be stat'ed\<close>

text \<open>
  Claim C1. When \<^verbatim>\<open>upload(file, params, onComplete, onProgress, onError)\<close> is given a
  path that \<^verbatim>\<open>fs.statSync\<close> cannot stat, it calls \<^verbatim>\<open>onError\<close> with the message
  "Unable to locate file to upload.", resolves with \<^verbatim>\<open>null\<close> and does nothing else: no
  HTTP call is made and \<^verbatim>\<open>params\<close> is left as it was. (\<^verbatim>\<open>params\<close> is in its own place,
  that is, not a function, and \<^verbatim>\<open>onError\<close> returns normally.)
\<close>

theorem upload_missing_file:
  assumes "statSync_size env p = None"
    and "typeof params \<noteq> TFunction"
    and "callback_throws env f [JStr ''Unable to locate file to upload.''] = None"
  shows "upload env this (JStr p) params completeCallback progressCallback (JFunc f fps) =
           \<lparr> returned = Inr None, params_after = params,
             events = [Callback f [JStr ''Unable to locate file to upload.'']] \<rparr>"
  using assms
  by (simp add: upload_def shift_arguments_def resolve_fileSize_def report_error_def)

theorem upload_missing_file_witness:
  "statSync_size sample_env ''/videos/missing.mp4'' = None
   \<and> typeof (JObj sample_params) \<noteq> TFunction
   \<and> callback_throws sample_env 13 [JStr ''Unable to locate file to upload.''] = None
   \<and> upload sample_env sample_client (JStr ''/videos/missing.mp4'') (JObj sample_params)
         (JFunc 11 []) (JFunc 12 []) (JFunc 13 []) =
       \<lparr> returned = Inr None, params_after = JObj sample_params,
         events = [Callback 13 [JStr ''Unable to locate file to upload.'']] \<rparr>"
proof -
  have stat: "statSync_size sample_env ''/videos/missing.mp4'' = None"
    by (simp add: sample_env_def)
  have place: "typeof (JObj sample_params) \<noteq> TFunction"
    by simp
  have quiet: "callback_throws sample_env 13 [JStr ''Unable to locate file to upload.''] = None"
    by (simp add: sample_env_def)
  from upload_missing_file [OF stat place quiet] stat place quiet show ?thesis
    by simp
qed

subsection \<open>C2: the upload approach is forced\<close>

text \<open>
  Claim C2. Let the size of the file resolve to \<open>fileSize\<close> (the stat'ed size of a path,
  the \<^verbatim>\<open>size\<close> field of a file object), and let \<^verbatim>\<open>params\<close> be an object whose
  \<^verbatim>\<open>upload\<close> field is absent or an object with the properties \<open>old\<close>. After \<^verbatim>\<open>upload\<close>
  or \<^verbatim>\<open>replace\<close>, \<^verbatim>\<open>params.upload\<close> is an object with \<^verbatim>\<open>approach\<close> equal to
  \<^verbatim>\<open>"tus"\<close>, \<^verbatim>\<open>size\<close> equal to \<open>fileSize\<close>, and every other key as in \<open>old\<close>.
\<close>

theorem upload_forces_tus_approach:
  assumes size:
      "(file = JStr p \<and> statSync_size env p = Some n \<and> fileSize = JNum (int n))
       \<or> (file = JObj fps \<and> fileSize = lookup fps ''size'')"
    and prior: "(lookup ps ''upload'' = JUndefined \<and> old = []) \<or> lookup ps ''upload'' = JObj old"
    and out: "out = upload env this file (JObj ps) completeCallback progressCallback errorCallback
              \<or> out = replace env this file videoUri (JObj ps) completeCallback progressCallback errorCallback"
  shows "\<exists>up. get_prop (params_after out) ''upload'' = Inr (JObj up)
           \<and> lookup up ''approach'' = JStr ''tus''
           \<and> lookup up ''size'' = fileSize
           \<and> (\<forall>k. k \<noteq> ''approach'' \<and> k \<noteq> ''size'' \<longrightarrow> map_of up k = map_of old k)"
proof -
  let ?up = "AList.update ''size'' fileSize (AList.update ''approach'' (JStr ''tus'') old)"
  have resolved: "resolve_fileSize env file = Resolved fileSize"
    using size by (rule resolve_fileSize_cases)
  have name: "\<exists>name. resolve_file_name env file = Inr name"
    using size by (auto simp: resolve_file_name_def)
  have "get_prop (params_after out) ''upload'' = Inr (JObj ?up)"
  proof -
    from out show ?thesis
    proof
      assume "out = upload env this file (JObj ps) completeCallback progressCallback errorCallback"
      then show ?thesis
        using params_after_upload [OF resolved override_upload_approach_object [OF prior]]
        by (simp add: lookup_update)
    next
      assume o: "out = replace env this file videoUri (JObj ps) completeCallback progressCallback errorCallback"
      from name obtain nm where nm: "resolve_file_name env file = Inr nm" ..
      have prior': "(lookup (AList.update ''file_name'' nm ps) ''upload'' = JUndefined \<and> old = [])
                    \<or> lookup (AList.update ''file_name'' nm ps) ''upload'' = JObj old"
        using prior by (simp add: lookup_update)
      show ?thesis
        using params_after_replace [OF resolved nm override_upload_approach_object [OF prior']] o
        by (simp add: lookup_update)
    qed
  qed
  moreover have "lookup ?up ''approach'' = JStr ''tus''" "lookup ?up ''size'' = fileSize"
    by (simp_all add: lookup_update)
  moreover have "\<forall>k. k \<noteq> ''approach'' \<and> k \<noteq> ''size'' \<longrightarrow> map_of ?up k = map_of old k"
    by (simp add: update_conv')
  ultimately show ?thesis by blast
qed

theorem upload_forces_tus_approach_witness:
  "\<exists>up. get_prop
          (params_after
             (upload sample_env sample_client (JStr ''/videos/clip.mp4'') (JObj sample_params)
                (JFunc 11 []) (JFunc 12 []) (JFunc 13 [])))
          ''upload'' = Inr (JObj up)
        \<and> lookup up ''approach'' = JStr ''tus''
        \<and> lookup up ''size'' = JNum 2048
        \<and> map_of up ''redirect_url'' = Some (JStr ''https://example.com/done'')"
proof -
  let ?old = "[(''approach'', JStr ''post''), (''redirect_url'', JStr ''https://example.com/done'')]"
  let ?out = "upload sample_env sample_client (JStr ''/videos/clip.mp4'') (JObj sample_params)
                (JFunc 11 []) (JFunc 12 []) (JFunc 13 [])"
  have size:
    "(JStr ''/videos/clip.mp4'' = JStr ''/videos/clip.mp4''
        \<and> statSync_size sample_env ''/videos/clip.mp4'' = Some 2048
        \<and> JNum 2048 = JNum (int 2048))
     \<or> (JStr ''/videos/clip.mp4'' = JObj [] \<and> JNum 2048 = lookup [] ''size'')"
    by (simp add: sample_env_def)
  have prior:
    "(lookup sample_params ''upload'' = JUndefined \<and> ?old = [])
     \<or> lookup sample_params ''upload'' = JObj ?old"
    by (simp add: sample_params_def lookup_def)
  have out:
    "?out = upload sample_env sample_client (JStr ''/videos/clip.mp4'') (JObj sample_params)
              (JFunc 11 []) (JFunc 12 []) (JFunc 13 [])
     \<or> ?out = replace sample_env sample_client (JStr ''/videos/clip.mp4'') ''/videos/7''
                 (JObj sample_params) (JFunc 11 []) (JFunc 12 []) (JFunc 13 [])"
    by simp
  from upload_forces_tus_approach [OF size prior out] obtain up where
    "get_prop (params_after ?out) ''upload'' = Inr (JObj up)"
    "lookup up ''approach'' = JStr ''tus''"
    "lookup up ''size'' = JNum 2048"
    "\<forall>k. k \<noteq> ''approach'' \<and> k \<noteq> ''size'' \<longrightarrow> map_of up k = map_of ?old k"
    by blast
  then show ?thesis by (intro exI [of _ up]) simp
qed

subsection \<open>C3: the transfer handle\<close>

text \<open>
  Claim C3. When the intent-declaration POST of \<^verbatim>\<open>upload\<close> or \<^verbatim>\<open>replace\<close> is answered
  with data whose \<^verbatim>\<open>upload.upload_link\<close> can be read, the call resolves with a transfer
  handle whose \<^verbatim>\<open>url\<close> is that link, whose \<^verbatim>\<open>uploadSize\<close> is the resolved file size,
  whose \<^verbatim>\<open>retryDelays\<close> are 0, 1000, 3000 and 5000, and which has not been started.
\<close>

theorem transfer_handle_targets_upload_link:
  assumes call: "out = upload env this file params cc pc ec
                 \<or> out = replace env this file videoUri params cc pc ec"
    and posted: "events out = AxiosPost url body hs # rest"
    and response: "axios_post env url body hs = Inr data"
    and link: "get_prop data ''upload'' = Inr attempt_upload"
              "get_prop attempt_upload ''upload_link'' = Inr link"
  shows "\<exists>h fileSize. returned out = Inr (Some h)
           \<and> resolve_fileSize env file = Resolved fileSize
           \<and> tus_url h = link
           \<and> tus_uploadSize h = fileSize
           \<and> tus_retryDelays h = [0, 1000, 3000, 5000]
           \<and> \<not> tus_started h"
proof -
  obtain params' cc' pc' ec' where sh: "shift_arguments params cc pc ec = (params', cc', pc', ec')"
    by (cases "shift_arguments params cc pc ec") auto
  from call show ?thesis
  proof
    assume o: "out = upload env this file params cc pc ec"
    with posted upload_posted [OF sh] obtain fileSize where
      r: "resolve_fileSize env file = Resolved fileSize" and
      p: "override_upload_approach params' fileSize = Inr body" by blast
    from posted o upload_resolved [OF sh r p, of this]
    have u: "url = ''/me/videos?field=uri,name,upload''" "hs = default_headers (requestOptions this)"
      by (simp_all add: Let_def)
    from transfer_or_report_link [OF link, of env "file" fileSize cc' pc' ec']
    obtain h opened where
      "transfer_or_report env file fileSize (Inr data) cc' pc' ec' = (Inr (Some h), opened)"
      "tus_url h = link" "tus_uploadSize h = fileSize"
      "tus_retryDelays h = [0, 1000, 3000, 5000]" "\<not> tus_started h" by blast
    with o upload_resolved [OF sh r p, of this] response u r show ?thesis
      by (simp add: Let_def)
  next
    assume o: "out = replace env this file videoUri params cc pc ec"
    with posted replace_posted [OF sh] obtain fileSize name params1 where
      r: "resolve_fileSize env file = Resolved fileSize" and
      n: "resolve_file_name env file = Inr name" and
      s: "set_prop params' ''file_name'' name = Inr params1" and
      p: "override_upload_approach params1 fileSize = Inr body" by blast
    from posted o replace_resolved [OF sh r n s p, of this videoUri]
    have u: "url = videoUri @ ''/versions?fields=upload''" "hs = default_headers (requestOptions this)"
      by (simp_all add: Let_def)
    from set_uri_keeps_upload [OF link, of "JStr videoUri"] obtain attempt where
      a: "set_prop data ''uri'' (JStr videoUri) = Inr attempt"
         "get_prop attempt ''upload'' = Inr attempt_upload" by blast
    from transfer_or_report_link [OF a(2) link(2), of env "file" fileSize cc' pc' ec']
    obtain h opened where
      "transfer_or_report env file fileSize (Inr attempt) cc' pc' ec' = (Inr (Some h), opened)"
      "tus_url h = link" "tus_uploadSize h = fileSize"
      "tus_retryDelays h = [0, 1000, 3000, 5000]" "\<not> tus_started h" by blast
    with o replace_resolved [OF sh r n s p, of this videoUri] response u r a(1) show ?thesis
      by (simp add: Let_def)
  qed
qed

theorem transfer_handle_targets_upload_link_witness:
  "\<exists>h. returned
          (upload sample_env sample_client (JStr ''/videos/clip.mp4'') (JObj sample_params)
             (JFunc 11 []) (JFunc 12 []) (JFunc 13 [])) = Inr (Some h)
        \<and> tus_url h = JStr ''https://files.tus.vimeo.com/files/abc''
        \<and> tus_uploadSize h = JNum 2048
        \<and> tus_retryDelays h = [0, 1000, 3000, 5000]
        \<and> \<not> tus_started h"
proof -
  let ?out = "upload sample_env sample_client (JStr ''/videos/clip.mp4'') (JObj sample_params)
                (JFunc 11 []) (JFunc 12 []) (JFunc 13 [])"
  let ?body = "JObj [(''name'', JStr ''Clip''),
                     (''upload'', JObj [(''approach'', JStr ''tus''),
                                        (''redirect_url'', JStr ''https://example.com/done''),
                                        (''size'', JNum 2048)])]"
  let ?hs = "default_headers (requestOptions sample_client)"
  have call:
    "?out = upload sample_env sample_client (JStr ''/videos/clip.mp4'') (JObj sample_params)
              (JFunc 11 []) (JFunc 12 []) (JFunc 13 [])
     \<or> ?out = replace sample_env sample_client (JStr ''/videos/clip.mp4'') ''/videos/7''
                 (JObj sample_params) (JFunc 11 []) (JFunc 12 []) (JFunc 13 [])"
    by simp
  have posted:
    "events ?out = AxiosPost ''/me/videos?field=uri,name,upload'' ?body ?hs
                     # [CreateReadStream ''/videos/clip.mp4'']"
    by (simp add: sample_upload_outcome)
  have response:
    "axios_post sample_env ''/me/videos?field=uri,name,upload'' ?body ?hs = Inr sample_attempt"
    by (simp add: sample_env_def)
  have link1:
    "get_prop sample_attempt ''upload'' =
       Inr (JObj [(''upload_link'', JStr ''https://files.tus.vimeo.com/files/abc'')])"
    by (simp add: sample_attempt_def lookup_def)
  have link2:
    "get_prop (JObj [(''upload_link'', JStr ''https://files.tus.vimeo.com/files/abc'')])
       ''upload_link'' = Inr (JStr ''https://files.tus.vimeo.com/files/abc'')"
    by (simp add: lookup_def)
  have resolved:
    "resolve_fileSize sample_env (JStr ''/videos/clip.mp4'') = Resolved (JNum 2048)"
    by (simp add: resolve_fileSize_def sample_env_def)
  from transfer_handle_targets_upload_link [OF call posted response link1 link2] resolved
  show ?thesis by auto
qed

subsection \<open>C4: the call form without params\<close>

text \<open>
  Claim C4. A call of \<^verbatim>\<open>upload\<close> whose second argument is a function, or of
  \<^verbatim>\<open>replace\<close> whose third argument is a function, has the outcome of the call with an
  empty params object in that place and every callback moved one place to the right;
  the last argument of the short form is ignored.
\<close>

theorem short_call_form_shifts_callbacks:
  "upload env this file (JFunc f fps) onProgress onError extra =
     upload env this file (JObj []) (JFunc f fps) onProgress onError
   \<and> replace env this file videoUri (JFunc f fps) onProgress onError extra =
     replace env this file videoUri (JObj []) (JFunc f fps) onProgress onError"
  by (simp add: upload_def replace_def shift_arguments_def)

theorem short_call_form_shifts_callbacks_witness:
  "upload sample_env sample_client (JStr ''/videos/missing.mp4'')
     (JFunc 11 []) (JFunc 12 []) (JFunc 13 []) JUndefined =
     \<lparr> returned = Inr None, params_after = JObj [],
       events = [Callback 13 [JStr ''Unable to locate file to upload.'']] \<rparr>
   \<and> upload sample_env sample_client (JStr ''/videos/missing.mp4'')
       (JObj []) (JFunc 11 []) (JFunc 12 []) (JFunc 13 []) =
     \<lparr> returned = Inr None, params_after = JObj [],
       events = [Callback 13 [JStr ''Unable to locate file to upload.'']] \<rparr>"
proof -
  have long_form:
    "upload sample_env sample_client (JStr ''/videos/missing.mp4'')
       (JObj []) (JFunc 11 []) (JFunc 12 []) (JFunc 13 []) =
     \<lparr> returned = Inr None, params_after = JObj [],
       events = [Callback 13 [JStr ''Unable to locate file to upload.'']] \<rparr>"
    by (simp add: upload_def shift_arguments_def resolve_fileSize_def report_error_def
          sample_env_def)
  from short_call_form_shifts_callbacks
    [of sample_env sample_client "JStr ''/videos/missing.mp4''" 11 "[]" "JFunc 12 []" "JFunc 13 []"
      JUndefined "''/videos/7''"]
    long_form
  show ?thesis by simp
qed

subsection \<open>C5: the file name and the resource URI of a replacement\<close>

text \<open>
  Claim C5. Let \<^verbatim>\<open>replace(file, videoUri, params, ...)\<close> be called with a path that can
  be stat'ed or with a file object, and with a params object whose \<^verbatim>\<open>upload\<close> field is
  absent or an object. Then the intent-declaration POST goes to
  \<^verbatim>\<open>videoUri + "/versions?fields=upload"\<close> and the params it sends carry \<^verbatim>\<open>file_name\<close>,
  equal to the base name of the path, or to the \<^verbatim>\<open>name\<close> of the file object. When the
  answer holds an upload link, the call resolves with a handle whose success function calls
  the completion callback with \<^verbatim>\<open>videoUri\<close>.
\<close>

theorem replace_file_name_and_uri:
  assumes path:
      "(file = JStr p \<and> statSync_size env p = Some n \<and> name = JStr (basename env p))
       \<or> (file = JObj fps \<and> name = lookup fps ''name'')"
    and params: "lookup ps ''upload'' = JUndefined \<or> lookup ps ''upload'' = JObj old"
    and out: "out = replace env this file videoUri (JObj ps) completeCallback progressCallback errorCallback"
    and url: "url = videoUri @ ''/versions?fields=upload''"
  shows "\<exists>body hs rest.
           events out = AxiosPost url body hs # rest
           \<and> get_prop body ''file_name'' = Inr name
           \<and> (\<forall>data attempt_upload link.
                 axios_post env url body hs = Inr data
                 \<and> get_prop data ''upload'' = Inr attempt_upload
                 \<and> get_prop attempt_upload ''upload_link'' = Inr link
                 \<longrightarrow> (\<exists>h. returned out = Inr (Some h)
                        \<and> run_onSuccess env (tus_onSuccess h) =
                            call_function env completeCallback [JStr videoUri]))"
proof -
  let ?hs = "default_headers (requestOptions this)"
  have sh: "shift_arguments (JObj ps) completeCallback progressCallback errorCallback =
              (JObj ps, completeCallback, progressCallback, errorCallback)"
    by (simp add: shift_arguments_def)
  from resolve_file_name_cases [OF path] obtain fileSize where
    n: "resolve_file_name env file = Inr name" and
    r: "resolve_fileSize env file = Resolved fileSize" by blast
  have s: "set_prop (JObj ps) ''file_name'' name = Inr (JObj (AList.update ''file_name'' name ps))"
    by simp
  from params obtain old' where prior:
    "(lookup (AList.update ''file_name'' name ps) ''upload'' = JUndefined \<and> old' = [])
     \<or> lookup (AList.update ''file_name'' name ps) ''upload'' = JObj old'"
    by (auto simp: lookup_update)
  let ?body = "JObj (AList.update ''upload''
                  (JObj (AList.update ''size'' fileSize (AList.update ''approach'' (JStr ''tus'') old')))
                  (AList.update ''file_name'' name ps))"
  note unfolded = replace_resolved [OF sh r n s override_upload_approach_object [OF prior],
      of this videoUri]
  have ev: "\<exists>rest. events out = AxiosPost url ?body ?hs # rest"
    using unfolded out url by (simp add: Let_def)
  have fname: "get_prop ?body ''file_name'' = Inr name"
    by (simp add: lookup_update)
  have success:
    "\<exists>h. returned out = Inr (Some h)
         \<and> run_onSuccess env (tus_onSuccess h) = call_function env completeCallback [JStr videoUri]"
    if resp: "axios_post env url ?body ?hs = Inr data"
      and l1: "get_prop data ''upload'' = Inr attempt_upload"
      and l2: "get_prop attempt_upload ''upload_link'' = Inr link"
    for data attempt_upload link
  proof -
    from set_uri_keeps_upload [OF l1 l2, of "JStr videoUri"] obtain attempt where
      a: "set_prop data ''uri'' (JStr videoUri) = Inr attempt"
         "get_prop attempt ''upload'' = Inr attempt_upload"
         "get_prop attempt ''uri'' = Inr (JStr videoUri)" by blast
    from transfer_or_report_link [OF a(2) l2, of env "file" fileSize completeCallback
        progressCallback errorCallback]
    obtain h opened where
      t: "transfer_or_report env file fileSize (Inr attempt) completeCallback progressCallback
            errorCallback = (Inr (Some h), opened)"
      and s: "tus_onSuccess h = OnSuccess completeCallback attempt" by blast
    from unfolded out url resp a(1) t have "returned out = Inr (Some h)"
      by (simp add: Let_def)
    moreover from s a(3)
    have "run_onSuccess env (tus_onSuccess h) = call_function env completeCallback [JStr videoUri]"
      by simp
    ultimately show ?thesis by blast
  qed
  from ev obtain rest where "events out = AxiosPost url ?body ?hs # rest" ..
  with fname success show ?thesis by blast
qed

theorem replace_file_name_and_uri_witness:
  "\<exists>body hs rest h.
     events (replace sample_env sample_client (JStr ''/videos/clip.mp4'') ''/videos/7''
               (JObj sample_params) (JFunc 11 []) (JFunc 12 []) (JFunc 13 [])) =
       AxiosPost ''/videos/7/versions?fields=upload'' body hs # rest
     \<and> get_prop body ''file_name'' = Inr (JStr ''clip.mp4'')
     \<and> returned (replace sample_env sample_client (JStr ''/videos/clip.mp4'') ''/videos/7''
                   (JObj sample_params) (JFunc 11 []) (JFunc 12 []) (JFunc 13 [])) = Inr (Some h)
     \<and> run_onSuccess sample_env (tus_onSuccess h) = (Inr (), [Callback 11 [JStr ''/videos/7'']])"
proof -
  let ?out = "replace sample_env sample_client (JStr ''/videos/clip.mp4'') ''/videos/7''
                (JObj sample_params) (JFunc 11 []) (JFunc 12 []) (JFunc 13 [])"
  let ?old = "[(''approach'', JStr ''post''), (''redirect_url'', JStr ''https://example.com/done'')]"
  have path:
    "(JStr ''/videos/clip.mp4'' = JStr ''/videos/clip.mp4''
        \<and> statSync_size sample_env ''/videos/clip.mp4'' = Some 2048
        \<and> JStr ''clip.mp4'' = JStr (basename sample_env ''/videos/clip.mp4''))
     \<or> (JStr ''/videos/clip.mp4'' = JObj [] \<and> JStr ''clip.mp4'' = lookup [] ''name'')"
    by (simp add: sample_env_def posix_basename_def)
  have params:
    "lookup sample_params ''upload'' = JUndefined \<or> lookup sample_params ''upload'' = JObj ?old"
    by (simp add: sample_params_def lookup_def)
  have url: "''/videos/7/versions?fields=upload'' = ''/videos/7'' @ ''/versions?fields=upload''"
    by simp
  from replace_file_name_and_uri [OF path params refl url] obtain body hs rest where
    ev: "events ?out = AxiosPost ''/videos/7/versions?fields=upload'' body hs # rest"
    and fname: "get_prop body ''file_name'' = Inr (JStr ''clip.mp4'')"
    and success:
      "\<forall>data attempt_upload link.
          axios_post sample_env ''/videos/7/versions?fields=upload'' body hs = Inr data
          \<and> get_prop data ''upload'' = Inr attempt_upload
          \<and> get_prop attempt_upload ''upload_link'' = Inr link
          \<longrightarrow> (\<exists>h. returned ?out = Inr (Some h)
                 \<and> run_onSuccess sample_env (tus_onSuccess h) =
                     call_function sample_env (JFunc 11 []) [JStr ''/videos/7''])"
    by blast
  have "axios_post sample_env ''/videos/7/versions?fields=upload'' body hs = Inr sample_attempt
        \<and> get_prop sample_attempt ''upload'' =
            Inr (JObj [(''upload_link'', JStr ''https://files.tus.vimeo.com/files/abc'')])
        \<and> get_prop (JObj [(''upload_link'', JStr ''https://files.tus.vimeo.com/files/abc'')])
            ''upload_link'' = Inr (JStr ''https://files.tus.vimeo.com/files/abc'')"
    by (simp add: sample_env_def sample_attempt_def lookup_def)
  with success obtain h where
    "returned ?out = Inr (Some h)"
    "run_onSuccess sample_env (tus_onSuccess h) =
       call_function sample_env (JFunc 11 []) [JStr ''/videos/7'']"
    by blast
  moreover have "call_function sample_env (JFunc 11 []) [JStr ''/videos/7''] =
                   (Inr (), [Callback 11 [JStr ''/videos/7'']])"
    by (simp add: sample_env_def)
  ultimately show ?thesis using ev fname by auto
qed

subsection \<open>C6: a bare URL\<close>

text \<open>
  Claim C6 says that \<^verbatim>\<open>request(s)\<close> for a string \<open>s\<close> is \<^verbatim>\<open>request({url: s, method: "GET"})\<close>.
  The code does otherwise: line 213 assigns \<^verbatim>\<open>method\<close> on the string itself, which throws
  in strict mode, so the promise is rejected with a TypeError before any HTTP call, while
  the options form hands one request to Axios.
\<close>

theorem request_bare_url_rejected:
  "request env this (JStr s) =
     (Inl (TypeError ''Cannot create property method on string''), [])
   \<and> (\<exists>built. snd (request env this (JObj [(''url'', JStr s), (''method'', JStr ''GET'')])) =
                 [AxiosRequest built])"
proof -
  obtain hs where "apply_default_headers (default_headers (requestOptions this)) (JObj []) = Inr (JObj hs)"
    using apply_default_headers_object by blast
  then have "\<exists>built. buildRequestOptions this (JObj [(''url'', JStr s), (''method'', JStr ''GET'')]) = Inr built"
    by (simp add: buildRequestOptions_def lookup_def apply_authorization_def apply_content_type_def Let_def)
  then show ?thesis
    by (auto simp: request_def lookup_def split: sum.splits)
qed

subsection \<open>C7: options without a URL\<close>

text \<open>
  Claim C7. For an options object whose \<^verbatim>\<open>url\<close> is not a string, \<^verbatim>\<open>request\<close> resolves
  with the Error "You must provide an API url" and makes no HTTP call. Conversely, whenever
  \<^verbatim>\<open>request\<close> resolves with an Error object of its own, it is this one, no HTTP call was
  made and the \<^verbatim>\<open>url\<close> of the options was not a string: every other failure is raised.
\<close>

theorem request_without_url_returns_error:
  "(typeof (lookup ps ''url'') \<noteq> TString \<longrightarrow>
      request env this (JObj ps) =
        (Inr (ReturnedError (JsError ''Error'' ''You must provide an API url'')), []))
   \<and> (fst (request env this options) = Inr (ReturnedError e) \<longrightarrow>
        e = JsError ''Error'' ''You must provide an API url''
        \<and> snd (request env this options) = []
        \<and> (\<exists>url. get_prop options ''url'' = Inr url \<and> typeof url \<noteq> TString))"
  by (cases options) (auto simp: request_def split: sum.splits if_splits)

theorem request_without_url_returns_error_witness:
  "typeof (lookup [] ''url'') \<noteq> TString
   \<and> request sample_env sample_client (JObj []) =
       (Inr (ReturnedError (JsError ''Error'' ''You must provide an API url'')), [])
   \<and> (\<exists>url. get_prop (JObj []) ''url'' = Inr url \<and> typeof url \<noteq> TString)"
proof -
  have no_url: "typeof (lookup [] ''url'') \<noteq> TString"
    by (simp add: lookup_def)
  from request_without_url_returns_error
    [of "[]" sample_env sample_client "JObj []" "JsError ''Error'' ''You must provide an API url''"]
    no_url
  show ?thesis by simp
qed

subsection \<open>C8: the Authorization header\<close>

text \<open>
  Claim C8, amended. For a client as constructed and after any calls of \<^verbatim>\<open>setAccessToken\<close>,
  and options whose \<^verbatim>\<open>headers\<close> are an object or falsy, the built options carry as
  Authorization header: \<^verbatim>\<open>Bearer <token>\<close> when the access token is a non-empty string;
  otherwise \<^verbatim>\<open>Basic <clientId>:<clientSecret>\<close>, not encoded, when both are non-empty
  strings; otherwise whatever the caller's headers held under that name, that is, neither
  form. So at most one of the two forms is attached.
\<close>

theorem authorization_header_rule:
  assumes client: "this = client_after (Vimeo cid secret token) tokens"
    and headers: "lookup ps ''headers'' = JObj hs \<or> (\<not> truthy (lookup ps ''headers'') \<and> hs = [])"
  shows "\<exists>built. buildRequestOptions this (JObj ps) = Inr built
           \<and> authorization_header built =
               (if present (accessToken this) then JStr (''Bearer '' @ the (accessToken this))
                else if present (clientId this) \<and> present (clientSecret this) then
                  JStr (''Basic '' @ the (clientId this) @ '':'' @ the (clientSecret this))
                else lookup hs ''Authorization'')"
proof -
  let ?defaults = "default_headers (requestOptions this)"
  have h0: "(if truthy (lookup ps ''headers'') then lookup ps ''headers'' else JObj []) = JObj hs"
    using headers by auto
  have keys: "''Authorization'' \<notin> fst ` set ?defaults"
    by (simp add: client client_after_fields Vimeo_def)
  from apply_default_headers_object [of ?defaults hs] keys obtain hs1 where
    h1: "apply_default_headers ?defaults (JObj hs) = Inr (JObj hs1)"
    and a1: "lookup hs1 ''Authorization'' = lookup hs ''Authorization''" by blast
  obtain hs2 where
    h2: "apply_authorization this (JObj hs1) = Inr (JObj hs2)"
    and a2: "lookup hs2 ''Authorization'' =
               (if present (accessToken this) then JStr (''Bearer '' @ the (accessToken this))
                else if present (clientId this) \<and> present (clientSecret this) then
                  JStr (''Basic '' @ the (clientId this) @ '':'' @ the (clientSecret this))
                else lookup hs ''Authorization'')"
    using a1 by (simp add: apply_authorization_object lookup_update)
  from apply_content_type_object
  obtain hs3 where
    h3: "apply_content_type
           (if truthy (lookup ps ''method'') then lookup ps ''method'' else JStr ''GET'')
           (JObj hs2) = Inr (JObj hs3)"
    and a3: "lookup hs3 ''Authorization'' = lookup hs2 ''Authorization''" by blast
  define rest where
    "rest = AList.update ''data'' (lookup ps ''data'')
              (AList.update ''headers'' (JObj hs)
                (AList.update ''method''
                  (if truthy (lookup ps ''method'') then lookup ps ''method'' else JStr ''GET'') ps))"
  from h0 h1 h2 h3 have
    b: "buildRequestOptions this (JObj ps) = Inr (JObj (AList.update ''headers'' (JObj hs3) rest))"
    by (simp add: buildRequestOptions_def Let_def rest_def)
  have "authorization_header (JObj (AList.update ''headers'' (JObj hs3) rest)) = lookup hs3 ''Authorization''"
    by (simp add: authorization_header_def lookup_update)
  with b a2 a3 show ?thesis by simp
qed

theorem authorization_header_rule_witness:
  "(\<exists>built. buildRequestOptions
               (client_after (Vimeo (Some ''id'') (Some ''secret'') None) [Some ''token-1''])
               (JObj [(''url'', JStr ''/me'')]) = Inr built
            \<and> authorization_header built = JStr ''Bearer token-1'')
   \<and> (\<exists>built. buildRequestOptions
                 (client_after (Vimeo (Some ''id'') (Some ''secret'') None) [])
                 (JObj [(''url'', JStr ''/me'')]) = Inr built
              \<and> authorization_header built = JStr ''Basic id:secret'')"
proof -
  have headers:
    "lookup [(''url'', JStr ''/me'')] ''headers'' = JObj []
     \<or> (\<not> truthy (lookup [(''url'', JStr ''/me'')] ''headers'') \<and> [] = ([] :: (string \<times> jsval) list))"
    by (simp add: lookup_def)
  from authorization_header_rule [OF refl headers, of "Some ''id''" "Some ''secret''" None "[Some ''token-1'']"]
  have bearer:
    "\<exists>built. buildRequestOptions
               (client_after (Vimeo (Some ''id'') (Some ''secret'') None) [Some ''token-1''])
               (JObj [(''url'', JStr ''/me'')]) = Inr built
            \<and> authorization_header built = JStr ''Bearer token-1''"
    by (simp add: client_after_def setAccessToken_def Vimeo_def)
  from authorization_header_rule [OF refl headers, of "Some ''id''" "Some ''secret''" None "[]"]
  have basic:
    "\<exists>built. buildRequestOptions
               (client_after (Vimeo (Some ''id'') (Some ''secret'') None) [])
               (JObj [(''url'', JStr ''/me'')]) = Inr built
            \<and> authorization_header built = JStr ''Basic id:secret''"
    by (simp add: client_after_def setAccessToken_def Vimeo_def)
  from bearer basic show ?thesis by blast
qed

text \<open>
  Claim C8 as stated has exactly one of the two forms attached for every client. A client
  constructed without credentials attaches none: the options built for \<^verbatim>\<open>{url: "/me"}\<close>
  have the two default headers only.
\<close>

theorem no_credentials_no_authorization_counterexample:
  "buildRequestOptions (Vimeo None None None) (JObj [(''url'', JStr ''/me'')]) =
     Inr (JObj [(''url'', JStr ''/me''),
                (''method'', JStr ''GET''),
                (''headers'',
                   JObj [(''Accept'', JStr ''application/vnd.vimeo.*+json;version=3.4''),
                         (''User-Agent'', JStr ''Vimeo.js/2.1.1'')]),
                (''data'', JUndefined)])
   \<and> authorization_header
       (JObj [(''url'', JStr ''/me''),
              (''method'', JStr ''GET''),
              (''headers'',
                 JObj [(''Accept'', JStr ''application/vnd.vimeo.*+json;version=3.4''),
                       (''User-Agent'', JStr ''Vimeo.js/2.1.1'')]),
              (''data'', JUndefined)]) = JUndefined"
  by (simp add: buildRequestOptions_def Vimeo_def lookup_def apply_authorization_def
        apply_content_type_def authorization_header_def Let_def)

subsection \<open>C9: scope and state of the authorization URL\<close>

text \<open>
  Claim C9, amended. The \<^verbatim>\<open>scope\<close> parameter of the URL that
  \<^verbatim>\<open>buildAuthorizationEndpoint\<close> returns is the elements joined by spaces when the scope
  is an array, the string itself when the scope is a non-empty string, and \<^verbatim>\<open>public\<close>
  when the scope is left out or is the empty string. The URL has a \<^verbatim>\<open>state\<close> parameter
  exactly when the state is a non-empty string, and then with that value.
\<close>

theorem buildAuthorizationEndpoint_scope_state:
  "query_param (buildAuthorizationEndpoint this redirectUri scope state) ''scope'' =
     Some (case scope of
             ScopeArray xs \<Rightarrow> join '' '' xs
           | ScopeString s \<Rightarrow> if s = [] then ''public'' else s
           | ScopeOmitted \<Rightarrow> ''public'')
   \<and> (query_param (buildAuthorizationEndpoint this redirectUri scope state) ''state'' \<noteq> None)
       = present state
   \<and> query_param (buildAuthorizationEndpoint this redirectUri scope state) ''state'' =
       (if present state then state else None)"
  by (cases state)
     (auto simp: query_param_def query_fields_buildAuthorizationEndpoint authorization_query_def
        field_value_def split: scope_arg.splits)

theorem buildAuthorizationEndpoint_scope_state_witness:
  "query_param
     (buildAuthorizationEndpoint sample_client (Some ''https://example.com/cb?next=/a b'')
        (ScopeArray [''public'', ''upload'']) (Some ''x+y=1&z''))
     ''scope'' = Some ''public upload''
   \<and> query_param
       (buildAuthorizationEndpoint sample_client (Some ''https://example.com/cb?next=/a b'')
          (ScopeArray [''public'', ''upload'']) (Some ''x+y=1&z''))
       ''state'' = Some ''x+y=1&z''"
  using buildAuthorizationEndpoint_scope_state
    [of sample_client "Some ''https://example.com/cb?next=/a b''"
      "ScopeArray [''public'', ''upload'']" "Some ''x+y=1&z''"]
  by simp

text \<open>
  Claim C9 as stated gives the string itself for every string scope. For the empty string
  the parameter is \<^verbatim>\<open>public\<close>.
\<close>

theorem buildAuthorizationEndpoint_empty_scope_counterexample:
  "query_param
     (buildAuthorizationEndpoint (Vimeo (Some ''id'') (Some ''secret'') None)
        (Some ''https://example.com/cb'') (ScopeString []) None)
     ''scope'' = Some ''public''
   \<and> query_param
       (buildAuthorizationEndpoint (Vimeo (Some ''id'') (Some ''secret'') None)
          (Some ''https://example.com/cb'') (ScopeString []) None)
       ''scope'' \<noteq> Some []"
  by (simp add: query_param_def query_fields_buildAuthorizationEndpoint authorization_query_def
        field_value_def)

subsection \<open>C10: the headers of the intent declaration\<close>

text \<open>
  Claim C10. For a client as constructed and after any calls of \<^verbatim>\<open>setAccessToken\<close>, every
  POST that \<^verbatim>\<open>upload\<close> or \<^verbatim>\<open>replace\<close> issues is sent with exactly the two default headers,
  \<^verbatim>\<open>Accept\<close> and \<^verbatim>\<open>User-Agent\<close>: it has no \<^verbatim>\<open>Authorization\<close> and no \<^verbatim>\<open>Content-Type\<close>
  header, with or without an access token.
\<close>

theorem intent_declaration_headers:
  assumes client: "this = client_after (Vimeo cid secret token) tokens"
    and call: "out = upload env this file params completeCallback progressCallback errorCallback
               \<or> out = replace env this file videoUri params completeCallback progressCallback
                          errorCallback"
    and posted: "AxiosPost url body hs \<in> set (events out)"
  shows "hs = [(''Accept'', ''application/vnd.vimeo.*+json;version=3.4''),
               (''User-Agent'', ''Vimeo.js/2.1.1'')]
         \<and> map_of hs ''Authorization'' = None
         \<and> map_of hs ''Content-Type'' = None"
proof -
  obtain params' cc pc ec where
    sh: "shift_arguments params completeCallback progressCallback errorCallback = (params', cc, pc, ec)"
    by (cases "shift_arguments params completeCallback progressCallback errorCallback") auto
  have defaults: "default_headers (requestOptions this) =
                    [(''Accept'', ''application/vnd.vimeo.*+json;version=3.4''),
                     (''User-Agent'', ''Vimeo.js/2.1.1'')]"
    by (simp add: client client_after_fields Vimeo_def)
  have "hs = default_headers (requestOptions this)"
    using call
  proof
    assume o: "out = upload env this file params completeCallback progressCallback errorCallback"
    show ?thesis
    proof (cases "resolve_fileSize env file")
      case StatFailed
      with o sh posted report_error_events [of env ec "''Unable to locate file to upload.''"]
      show ?thesis by (auto simp: upload_def split: prod.splits)
    next
      case (SizeThrew x)
      with o sh posted show ?thesis by (simp add: upload_def)
    next
      case (Resolved fileSize)
      show ?thesis
      proof (cases "override_upload_approach params' fileSize")
        case (Inl x)
        with o sh posted Resolved show ?thesis by (simp add: upload_def)
      next
        case (Inr params1)
        from posted o upload_resolved [OF sh Resolved Inr, of this]
          transfer_or_report_events [of url body hs env "file" fileSize _ cc pc ec]
        show ?thesis by (auto simp: Let_def)
      qed
    qed
  next
    assume o: "out = replace env this file videoUri params completeCallback progressCallback
                       errorCallback"
    show ?thesis
    proof (cases "resolve_fileSize env file")
      case StatFailed
      with o sh posted report_error_events [of env ec "''Unable to locate file to upload.''"]
      show ?thesis by (auto simp: replace_def split: prod.splits)
    next
      case (SizeThrew x)
      with o sh posted show ?thesis by (simp add: replace_def)
    next
      case (Resolved fileSize)
      show ?thesis
      proof (cases "resolve_file_name env file")
        case (Inl x)
        with o sh posted Resolved show ?thesis by (simp add: replace_def)
      next
        case name: (Inr name)
        show ?thesis
        proof (cases "set_prop params' ''file_name'' name")
          case (Inl x)
          with o sh posted Resolved name show ?thesis by (simp add: replace_def)
        next
          case p1: (Inr params1)
          show ?thesis
          proof (cases "override_upload_approach params1 fileSize")
            case (Inl x)
            with o sh posted Resolved name p1 show ?thesis by (simp add: replace_def)
          next
            case (Inr params2)
            from posted o replace_resolved [OF sh Resolved name p1 Inr, of this videoUri]
              transfer_or_report_events [of url body hs env "file" fileSize _ cc pc ec]
            show ?thesis by (auto simp: Let_def)
          qed
        qed
      qed
    qed
  qed
  with defaults show ?thesis by simp
qed

theorem intent_declaration_headers_witness:
  "AxiosPost ''/me/videos?field=uri,name,upload''
     (JObj [(''name'', JStr ''Clip''),
            (''upload'', JObj [(''approach'', JStr ''tus''),
                               (''redirect_url'', JStr ''https://example.com/done''),
                               (''size'', JNum 2048)])])
     [(''Accept'', ''application/vnd.vimeo.*+json;version=3.4''),
      (''User-Agent'', ''Vimeo.js/2.1.1'')]
   \<in> set (events
       (upload sample_env
          (client_after (Vimeo (Some ''id'') (Some ''secret'') (Some ''token-0'')) [Some ''token-1''])
          (JStr ''/videos/clip.mp4'') (JObj sample_params) (JFunc 11 []) (JFunc 12 []) (JFunc 13 [])))"
proof -
  let ?client = "client_after (Vimeo (Some ''id'') (Some ''secret'') (Some ''token-0'')) [Some ''token-1'']"
  let ?out = "upload sample_env ?client (JStr ''/videos/clip.mp4'') (JObj sample_params)
                (JFunc 11 []) (JFunc 12 []) (JFunc 13 [])"
  let ?body = "JObj [(''name'', JStr ''Clip''),
                     (''upload'', JObj [(''approach'', JStr ''tus''),
                                        (''redirect_url'', JStr ''https://example.com/done''),
                                        (''size'', JNum 2048)])]"
  have call:
    "?out = upload sample_env ?client (JStr ''/videos/clip.mp4'') (JObj sample_params)
              (JFunc 11 []) (JFunc 12 []) (JFunc 13 [])
     \<or> ?out = replace sample_env ?client (JStr ''/videos/clip.mp4'') ''/videos/7''
                 (JObj sample_params) (JFunc 11 []) (JFunc 12 []) (JFunc 13 [])"
    by simp
  have posted:
    "AxiosPost ''/me/videos?field=uri,name,upload'' ?body (default_headers (requestOptions ?client))
       \<in> set (events ?out)"
    by (simp add: sample_upload_outcome)
  from intent_declaration_headers [OF refl call posted] posted show ?thesis
    by simp
qed

end
